theory Spec2Isabelle
  imports Main "HOL-Library.Word"
begin

unbundle bit_operations_syntax

section \<open>JavaScript values\<close>

text \<open>
  A JavaScript string is a sequence of UTF-16 code units, and \<open>s.length\<close> counts code
  units; a \<open>Buffer\<close> is a sequence of bytes. Header values, configuration values and
  plaintexts are all strings of this kind.
\<close>

type_synonym code_unit = "16 word"
type_synonym jsstring = "code_unit list"
type_synonym byte = "8 word"
type_synonym buffer = "byte list"

text \<open>A string literal of the source, written with ASCII characters.\<close>

definition js :: "string \<Rightarrow> jsstring" where
  "js s = map (\<lambda>c. of_nat (of_char c)) s"

text \<open>
  \<open>!v\<close> for a value that is a string or \<open>undefined\<close>: true for \<open>undefined\<close> and for
  the empty string.
\<close>

definition falsy :: "jsstring option \<Rightarrow> bool" where
  "falsy v = (case v of None \<Rightarrow> True | Some s \<Rightarrow> s = [])"

subsection \<open>Hexadecimal encoding of buffers\<close>

text \<open>
  \<open>buf.toString('hex')\<close> and \<open>digest('hex')\<close> write two lowercase digits per byte.
  \<open>Buffer.from(s, 'hex')\<close> reads pairs of digits of either case and stops at the first
  pair that is not two hexadecimal digits; a trailing single character is dropped. Of
  each code unit the decoder looks at the low byte only.
\<close>

definition hexDigit :: "nat \<Rightarrow> code_unit" where
  "hexDigit n = of_nat (if n < 10 then 48 + n else 87 + n)"

definition hexByte :: "byte \<Rightarrow> jsstring" where
  "hexByte b = [hexDigit (unat b div 16), hexDigit (unat b mod 16)]"

definition hexEncode :: "buffer \<Rightarrow> jsstring" where
  "hexEncode bs = concat (map hexByte bs)"

definition unhex :: "code_unit \<Rightarrow> nat option" where
  "unhex c = (let n = unat c mod 256 in
     if 48 \<le> n \<and> n \<le> 57 then Some (n - 48)
     else if 97 \<le> n \<and> n \<le> 102 then Some (n - 87)
     else if 65 \<le> n \<and> n \<le> 70 then Some (n - 55)
     else None)"

fun hexDecode :: "jsstring \<Rightarrow> buffer" where
  "hexDecode (a # b # rest) =
     (case unhex a of
        None \<Rightarrow> []
      | Some h \<Rightarrow> (case unhex b of
          None \<Rightarrow> []
        | Some l \<Rightarrow> of_nat (16 * h + l) # hexDecode rest))"
| "hexDecode [a] = []"
| "hexDecode [] = []"

text \<open>The uppercase form of an ASCII string: \<open>a\<close>..\<open>z\<close> become \<open>A\<close>..\<open>Z\<close>.\<close>

definition upperUnit :: "code_unit \<Rightarrow> code_unit" where
  "upperUnit c = (if 97 \<le> unat c \<and> unat c \<le> 122 then c - 32 else c)"

definition asciiUpper :: "jsstring \<Rightarrow> jsstring" where
  "asciiUpper s = map upperUnit s"

subsection \<open>Numbers and decimal strings\<close>

text \<open>
  \<open>parseInt(s, 10)\<close>: leading white space is skipped, one sign is read, then the
  longest run of decimal digits; the result is \<open>NaN\<close> (here \<open>None\<close>) when that run is
  empty. Whatever follows the digits is ignored.

  The source computes with IEEE doubles. The model uses unbounded integers: every integer
  of magnitude below \<open>2 ^ 53\<close> is an exact double, rounding is monotone, and the clock is
  far below \<open>2 ^ 53\<close> seconds, so the comparison \<open>currentTime - requestTime > 300\<close>
  has the same outcome in both.
\<close>

definition isStrWhiteSpaceChar :: "code_unit \<Rightarrow> bool" where
  "isStrWhiteSpaceChar c =
     (c \<in> set [0x09, 0x0A, 0x0B, 0x0C, 0x0D, 0x20, 0xA0, 0x1680, 0x2028, 0x2029,
                0x202F, 0x205F, 0x3000, 0xFEFF]
      \<or> (0x2000 \<le> c \<and> c \<le> 0x200A))"

definition isDigit :: "code_unit \<Rightarrow> bool" where
  "isDigit c = (48 \<le> unat c \<and> unat c \<le> 57)"

definition digitsValue :: "jsstring \<Rightarrow> int" where
  "digitsValue ds = foldl (\<lambda>acc d. 10 * acc + (uint d - 48)) 0 ds"

definition parseInt :: "jsstring \<Rightarrow> int option" where
  "parseInt s =
     (let S = dropWhile isStrWhiteSpaceChar s;
          sgn = (case S of c # _ \<Rightarrow> if c = 0x2D then - 1 else 1 | [] \<Rightarrow> (1::int));
          S1 = (case S of c # r \<Rightarrow> if c = 0x2D \<or> c = 0x2B then r else S | [] \<Rightarrow> []);
          Z = takeWhile isDigit S1
      in if Z = [] then None else Some (sgn * digitsValue Z))"

text \<open>\<open>n.toString()\<close> for an integer \<open>n\<close>: decimal digits, with \<open>-\<close> when negative.\<close>

fun natToString :: "nat \<Rightarrow> jsstring" where
  "natToString n =
     (if n < 10 then [of_nat (48 + n)]
      else natToString (n div 10) @ [of_nat (48 + n mod 10)])"

declare natToString.simps [simp del]

definition toString :: "int \<Rightarrow> jsstring" where
  "toString i = (if i < 0 then 0x2D # natToString (nat (- i)) else natToString (nat i))"

section \<open>The platform library\<close>

text \<open>
  The functions of Node's \<open>crypto\<close>, \<open>Buffer\<close> and \<open>String\<close> that the source calls and
  whose code is not part of the repository are parameters of the model:
  \<^item> \<open>hmac_sha256 key content\<close> is \<open>createHmac('sha256', key).update(content).digest()\<close>;
  \<^item> \<open>gcm_encrypt key iv plaintext\<close> is the ciphertext and the authentication tag that
    an \<open>aes-256-gcm\<close> cipher produces;
  \<^item> \<open>gcm_decrypt key iv ciphertext tag\<close> is the plaintext of the decipher, or \<open>None\<close>
    when \<open>createDecipheriv\<close>, \<open>setAuthTag\<close> or \<open>final\<close> throws;
  \<^item> \<open>base64_encode\<close> and \<open>base64_decode\<close> are \<open>buf.toString('base64')\<close> and
    \<open>Buffer.from(s, 'base64')\<close>;
  \<^item> \<open>utf8_decode\<close> is the decoding of the decipher's output as \<open>'utf8'\<close>;
  \<^item> \<open>toUpperCase\<close> is \<open>String.prototype.toUpperCase\<close>.
\<close>

record node_lib =
  hmac_sha256 :: "jsstring \<Rightarrow> jsstring \<Rightarrow> buffer"
  gcm_encrypt :: "buffer \<Rightarrow> buffer \<Rightarrow> buffer \<Rightarrow> buffer \<times> buffer"
  gcm_decrypt :: "buffer \<Rightarrow> buffer \<Rightarrow> buffer \<Rightarrow> buffer \<Rightarrow> buffer option"
  base64_encode :: "buffer \<Rightarrow> jsstring"
  base64_decode :: "jsstring \<Rightarrow> buffer"
  utf8_decode :: "buffer \<Rightarrow> jsstring"
  toUpperCase :: "jsstring \<Rightarrow> jsstring"

text \<open>
  \<open>ConfigService.get(name, default)\<close>: the configured value, or the default when the
  variable is not set.
\<close>

type_synonym config = "string \<rightharpoonup> jsstring"

definition configGet :: "config \<Rightarrow> string \<Rightarrow> jsstring \<Rightarrow> jsstring" where
  "configGet cfg name dflt = (case cfg name of None \<Rightarrow> dflt | Some v \<Rightarrow> v)"

section \<open>ServiceAuthGuard\<close>

record ServiceAuthGuard =
  apiKeys :: "(jsstring \<times> jsstring) list"
  allowedServices :: "jsstring list"

text \<open>
  The constructor builds the key table from four configuration variables, each
  defaulting to the empty string, and takes the table's keys as the allowed services.
  Its debug logging has no effect on the guard and is left out.
\<close>

definition newServiceAuthGuard :: "config \<Rightarrow> ServiceAuthGuard" where
  "newServiceAuthGuard cfg =
     (let keys = [(js ''user-service'', configGet cfg ''USER_SERVICE_KEY'' []),
                  (js ''api-gateway'', configGet cfg ''API_GATEWAY_KEY'' []),
                  (js ''pet-service'', configGet cfg ''PET_SERVICE_KEY'' []),
                  (js ''auth-service'', configGet cfg ''AUTH_SERVICE_KEY'' [])]
      in \<lparr>apiKeys = keys, allowedServices = map fst keys\<rparr>)"

text \<open>
  The inbound request as the guard reads it: the three headers (absent or a string),
  the method, the path, and \<open>JSON.stringify(request.body)\<close>, which is \<open>undefined\<close>
  for a request without a body.
\<close>

record http_request =
  x_service_id :: "jsstring option"
  x_request_timestamp :: "jsstring option"
  x_request_signature :: "jsstring option"
  req_method :: jsstring
  req_path :: jsstring
  body_json :: "jsstring option"

datatype UnauthorizedException =
    MissingHeaders
  | UnknownService jsstring
  | ExpiredOrInvalidTimestamp
  | InvalidCredentials
  | InvalidSignature

fun message :: "UnauthorizedException \<Rightarrow> jsstring" where
  "message MissingHeaders = js ''Missing required authentication headers''"
| "message (UnknownService serviceId) = js ''Unknown service: '' @ serviceId"
| "message ExpiredOrInvalidTimestamp = js ''Request expired or invalid timestamp''"
| "message InvalidCredentials = js ''Invalid service credentials''"
| "message InvalidSignature = js ''Invalid signature''"

definition createSignature :: "node_lib \<Rightarrow> jsstring \<Rightarrow> jsstring \<Rightarrow> jsstring" where
  "createSignature lib content key = hexEncode (hmac_sha256 lib key content)"

text \<open>
  \<open>crypto.timingSafeEqual\<close> throws when the two buffers differ in length; \<open>safeCompare\<close>
  catches that and answers \<open>false\<close>.
\<close>

definition timingSafeEqual :: "buffer \<Rightarrow> buffer \<Rightarrow> bool option" where
  "timingSafeEqual x y = (if length x \<noteq> length y then None else Some (x = y))"

definition safeCompare :: "jsstring \<Rightarrow> jsstring \<Rightarrow> bool" where
  "safeCompare a b =
     (if length a \<noteq> length b then False
      else (case timingSafeEqual (hexDecode a) (hexDecode b) of
              None \<Rightarrow> False
            | Some r \<Rightarrow> r))"

definition bodyContent :: "http_request \<Rightarrow> jsstring" where
  "bodyContent request = (case body_json request of None \<Rightarrow> [] | Some s \<Rightarrow> s)"

definition signatureContent :: "http_request \<Rightarrow> jsstring \<Rightarrow> jsstring" where
  "signatureContent request timestamp =
     req_method request @ js '':'' @ req_path request @ js '':'' @ timestamp @ js '':''
       @ bodyContent request"

text \<open>
  \<open>canActivate\<close> with the clock reading \<open>currentTime\<close> (in seconds) as an argument.
  Every \<open>throw\<close> is an \<open>Inl\<close>; the only normal return is \<open>true\<close>.
\<close>

definition canActivate ::
  "node_lib \<Rightarrow> ServiceAuthGuard \<Rightarrow> int \<Rightarrow> http_request \<Rightarrow> UnauthorizedException + bool" where
  "canActivate lib guard currentTime request =
     (case (x_service_id request, x_request_timestamp request, x_request_signature request) of
        (Some serviceId, Some timestamp, Some signature) \<Rightarrow>
          if serviceId = [] \<or> timestamp = [] \<or> signature = [] then Inl MissingHeaders
          else if serviceId \<notin> set (allowedServices guard) then Inl (UnknownService serviceId)
          else (case parseInt timestamp of
              None \<Rightarrow> Inl ExpiredOrInvalidTimestamp
            | Some requestTime \<Rightarrow>
                if currentTime - requestTime > 300 then Inl ExpiredOrInvalidTimestamp
                else (case map_of (apiKeys guard) serviceId of
                    None \<Rightarrow> Inl InvalidCredentials
                  | Some apiKey \<Rightarrow>
                      if apiKey = [] then Inl InvalidCredentials
                      else if \<not> safeCompare signature
                                 (createSignature lib (signatureContent request timestamp) apiKey)
                      then Inl InvalidSignature
                      else Inr True))
      | _ \<Rightarrow> Inl MissingHeaders)"

subsection \<open>The five checks, each on its own\<close>

text \<open>
  The conditions that \<open>canActivate\<close> tests, in the order of the source, each as a
  predicate of the request alone.
\<close>

definition headerPresence :: "http_request \<Rightarrow> bool" where
  "headerPresence request =
     (\<not> falsy (x_service_id request) \<and> \<not> falsy (x_request_timestamp request)
      \<and> \<not> falsy (x_request_signature request))"

definition knownService :: "ServiceAuthGuard \<Rightarrow> http_request \<Rightarrow> bool" where
  "knownService guard request =
     (case x_service_id request of
        None \<Rightarrow> False
      | Some sid \<Rightarrow> sid \<in> set (allowedServices guard))"

definition freshTimestamp :: "int \<Rightarrow> http_request \<Rightarrow> bool" where
  "freshTimestamp currentTime request =
     (case x_request_timestamp request of
        None \<Rightarrow> False
      | Some ts \<Rightarrow> (case parseInt ts of
          None \<Rightarrow> False
        | Some requestTime \<Rightarrow> \<not> currentTime - requestTime > 300))"

definition keyPresent :: "ServiceAuthGuard \<Rightarrow> http_request \<Rightarrow> bool" where
  "keyPresent guard request =
     (case x_service_id request of
        None \<Rightarrow> False
      | Some sid \<Rightarrow> (case map_of (apiKeys guard) sid of
          None \<Rightarrow> False
        | Some apiKey \<Rightarrow> apiKey \<noteq> []))"

text \<open>The signature that the guard computes for a request, in lowercase hexadecimal.\<close>

definition expectedSignature :: "node_lib \<Rightarrow> ServiceAuthGuard \<Rightarrow> http_request \<Rightarrow> jsstring" where
  "expectedSignature lib guard request =
     (case x_service_id request of
        None \<Rightarrow> []
      | Some sid \<Rightarrow> (case x_request_timestamp request of
          None \<Rightarrow> []
        | Some ts \<Rightarrow> (case map_of (apiKeys guard) sid of
            None \<Rightarrow> []
          | Some apiKey \<Rightarrow> createSignature lib (signatureContent request ts) apiKey)))"

definition signatureMatch :: "node_lib \<Rightarrow> ServiceAuthGuard \<Rightarrow> http_request \<Rightarrow> bool" where
  "signatureMatch lib guard request =
     (case x_request_signature request of
        None \<Rightarrow> False
      | Some sg \<Rightarrow> safeCompare sg (expectedSignature lib guard request))"

definition claimedService :: "http_request \<Rightarrow> jsstring" where
  "claimedService request = (case x_service_id request of None \<Rightarrow> [] | Some sid \<Rightarrow> sid)"

section \<open>ServiceAuthClient\<close>

record ServiceAuthClient =
  serviceId :: jsstring
  serviceKey :: jsstring

text \<open>
  The constructor reads the key, defaulting to the empty string, and writes a warning to
  the console when it is empty. The second component is what \<open>console.warn\<close> received.
\<close>

definition newServiceAuthClient :: "config \<Rightarrow> ServiceAuthClient \<times> jsstring list" where
  "newServiceAuthClient cfg =
     (let key = configGet cfg ''USER_SERVICE_KEY'' []
      in (\<lparr>serviceId = js ''user-service'', serviceKey = key\<rparr>,
          if key = []
          then [js ''Warning: USER_SERVICE_KEY is not set. Service authentication will fail.'']
          else []))"

text \<open>
  The outgoing request as \<open>signRequest\<close> reads it: \<open>data_json\<close> is
  \<open>JSON.stringify(config.data)\<close>, or \<open>None\<close> when \<open>config.data\<close> is falsy.
\<close>

record axios_config =
  cfg_method :: "jsstring option"
  cfg_url :: "jsstring option"
  data_json :: "jsstring option"
  cfg_headers :: "(jsstring \<rightharpoonup> jsstring) option"

text \<open>The string that \<open>signRequest\<close> signs, for the timestamp \<open>timestamp\<close>.\<close>

definition outboundContent :: "node_lib \<Rightarrow> jsstring \<Rightarrow> axios_config \<Rightarrow> jsstring" where
  "outboundContent lib timestamp config =
     (let method = (case cfg_method config of
                      None \<Rightarrow> js ''GET''
                    | Some m \<Rightarrow> (let u = toUpperCase lib m in if u = [] then js ''GET'' else u));
          path = (case cfg_url config of None \<Rightarrow> [] | Some u \<Rightarrow> u);
          body = (case data_json config of None \<Rightarrow> [] | Some d \<Rightarrow> d)
      in method @ js '':'' @ path @ js '':'' @ timestamp @ js '':'' @ body)"

text \<open>\<open>signRequest\<close> with the clock reading \<open>now\<close> (in seconds) as an argument.\<close>

definition signRequest ::
  "node_lib \<Rightarrow> ServiceAuthClient \<Rightarrow> int \<Rightarrow> axios_config \<Rightarrow> axios_config" where
  "signRequest lib client now config =
     (let timestamp = toString now;
          signature = createSignature lib (outboundContent lib timestamp config)
                        (serviceKey client);
          hs = (case cfg_headers config of None \<Rightarrow> Map.empty | Some h \<Rightarrow> h)
      in config\<lparr>cfg_headers :=
           Some (hs(js ''x-service-id'' \<mapsto> serviceId client,
                    js ''x-request-timestamp'' \<mapsto> timestamp,
                    js ''x-request-signature'' \<mapsto> signature))\<rparr>)"

text \<open>Reading one header of an outgoing request.\<close>

definition header :: "axios_config \<Rightarrow> jsstring \<Rightarrow> jsstring option" where
  "header config name = (case cfg_headers config of None \<Rightarrow> None | Some h \<Rightarrow> h name)"

section \<open>DatabaseEncryptionService\<close>

subsection \<open>UTF-8 encoding of strings\<close>

text \<open>
  \<open>Buffer.from(s, 'utf8')\<close> and \<open>cipher.update(s, 'utf8', ...)\<close> encode the code units
  of \<open>s\<close>: one byte below \<open>0x80\<close>, two below \<open>0x800\<close>, three otherwise; a surrogate
  pair is one code point of four bytes, and a surrogate without its partner is written
  as U+FFFD.
\<close>

definition isHighSurrogate :: "code_unit \<Rightarrow> bool" where
  "isHighSurrogate u = (0xD800 \<le> unat u \<and> unat u < 0xDC00)"

definition isLowSurrogate :: "code_unit \<Rightarrow> bool" where
  "isLowSurrogate u = (0xDC00 \<le> unat u \<and> unat u < 0xE000)"

definition utf8_code_point :: "nat \<Rightarrow> buffer" where
  "utf8_code_point n =
     (if n < 0x80 then [of_nat n]
      else if n < 0x800 then [of_nat (0xC0 + n div 64), of_nat (0x80 + n mod 64)]
      else if n < 0x10000 then
        [of_nat (0xE0 + n div 4096), of_nat (0x80 + n div 64 mod 64), of_nat (0x80 + n mod 64)]
      else
        [of_nat (0xF0 + n div 262144), of_nat (0x80 + n div 4096 mod 64),
         of_nat (0x80 + n div 64 mod 64), of_nat (0x80 + n mod 64)])"

fun utf8_encode :: "jsstring \<Rightarrow> buffer" where
  "utf8_encode [] = []"
| "utf8_encode [u] =
     (if isHighSurrogate u \<or> isLowSurrogate u then utf8_code_point 0xFFFD
      else utf8_code_point (unat u))"
| "utf8_encode (u # v # rest) =
     (if isHighSurrogate u \<and> isLowSurrogate v then
        utf8_code_point (0x10000 + (unat u - 0xD800) * 1024 + (unat v - 0xDC00))
          @ utf8_encode rest
      else if isHighSurrogate u \<or> isLowSurrogate u then
        utf8_code_point 0xFFFD @ utf8_encode (v # rest)
      else utf8_code_point (unat u) @ utf8_encode (v # rest))"

subsection \<open>Buffers\<close>

text \<open>
  \<open>buf.slice(start, end)\<close>: a negative index counts from the end, and both are clamped
  to the buffer.
\<close>

definition bufferSlice :: "buffer \<Rightarrow> int \<Rightarrow> int \<Rightarrow> buffer" where
  "bufferSlice buf start end =
     (let len = int (length buf);
          s = (if start < 0 then max (len + start) 0 else min start len);
          e = (if end < 0 then max (len + end) 0 else min end len)
      in if s < e then take (nat (e - s)) (drop (nat s) buf) else [])"

subsection \<open>The service\<close>

record DatabaseEncryptionService =
  encryptionKey :: buffer

definition ivLength :: nat where
  "ivLength = 16"

definition authTagLength :: nat where
  "authTagLength = 16"

datatype js_error = Error jsstring

text \<open>
  The constructor, with what \<open>console.warn\<close> received as the second component. It has
  no \<open>throw\<close>.
\<close>

definition newDatabaseEncryptionService ::
  "config \<Rightarrow> DatabaseEncryptionService \<times> jsstring list" where
  "newDatabaseEncryptionService cfg =
     (let keyString = configGet cfg ''DB_ENCRYPTION_KEY'' []
      in if keyString = [] \<or> length keyString < 32
         then (\<lparr>encryptionKey = utf8_encode (js ''dbencryptionsecretkeyfordevelopment'')\<rparr>,
               [js ''Warning: DB_ENCRYPTION_KEY is missing or too short. Defaulting to a development key.''])
         else (\<lparr>encryptionKey = utf8_encode (take 32 keyString)\<rparr>, []))"

text \<open>
  \<open>createCipheriv\<close> and \<open>createDecipheriv\<close> for \<open>aes-256-gcm\<close> throw unless the key
  has exactly 32 bytes.
\<close>

definition validKeyLength :: "buffer \<Rightarrow> bool" where
  "validKeyLength key = (length key = 32)"

text \<open>
  \<open>encrypt\<close>, with the bytes that \<open>crypto.randomBytes(ivLength)\<close> returned as the
  argument \<open>iv\<close>. The ciphertext passes through its hexadecimal form, as in the source.
  Whatever is thrown inside the \<open>try\<close> is rethrown as \<open>Failed to encrypt data\<close>.
\<close>

definition encrypt ::
  "node_lib \<Rightarrow> DatabaseEncryptionService \<Rightarrow> buffer \<Rightarrow> jsstring \<Rightarrow> js_error + jsstring" where
  "encrypt lib svc iv text =
     (if text = [] then Inr text
      else if \<not> validKeyLength (encryptionKey svc)
      then Inl (Error (js ''Failed to encrypt data''))
      else (case gcm_encrypt lib (encryptionKey svc) iv (utf8_encode text) of
              (ciphertext, authTag) \<Rightarrow>
                (let encrypted = hexEncode ciphertext
                 in Inr (base64_encode lib (iv @ hexDecode encrypted @ authTag)))))"

text \<open>
  \<open>decrypt\<close>. Whatever is thrown inside the \<open>try\<close> becomes the returned placeholder
  string; the function itself never throws.
\<close>

definition decrypt :: "node_lib \<Rightarrow> DatabaseEncryptionService \<Rightarrow> jsstring \<Rightarrow> jsstring" where
  "decrypt lib svc encryptedText =
     (if encryptedText = [] then encryptedText
      else
        (let buf = base64_decode lib encryptedText;
             len = int (length buf);
             iv = bufferSlice buf 0 (int ivLength);
             authTag = bufferSlice buf (len - int authTagLength) len;
             encrypted = bufferSlice buf (int ivLength) (len - int authTagLength)
         in if \<not> validKeyLength (encryptionKey svc) then js ''[Decryption failed]''
            else (case gcm_decrypt lib (encryptionKey svc) iv
                         (hexDecode (hexEncode encrypted)) authTag of
                    None \<Rightarrow> js ''[Decryption failed]''
                  | Some plain \<Rightarrow> utf8_decode lib plain)))"


subsection \<open>What the model relies on from the library\<close>

text \<open>
  Base64 decoding inverts encoding, and the encoding of a non-empty buffer is not empty;
  the authentication tag has 16 bytes; deciphering what the cipher produced, with the same
  32-byte key and the same non-empty IV, gives the plaintext back.
\<close>

definition lib_ok :: "node_lib \<Rightarrow> bool" where
  "lib_ok lib =
     ((\<forall>bs. base64_decode lib (base64_encode lib bs) = bs) \<and>
      (\<forall>bs. bs \<noteq> [] \<longrightarrow> base64_encode lib bs \<noteq> []) \<and>
      (\<forall>k iv p. length (snd (gcm_encrypt lib k iv p)) = 16) \<and>
      (\<forall>k iv p. length k = 32 \<longrightarrow> iv \<noteq> [] \<longrightarrow>
         gcm_decrypt lib k iv (fst (gcm_encrypt lib k iv p)) (snd (gcm_encrypt lib k iv p))
           = Some p))"


subsection \<open>A small executable library\<close>

text \<open>
  An instance of the library record that can be run: a one-byte checksum in place of
  HMAC-SHA256, a one-byte XOR pad with a 16-byte check value in place of AES-GCM,
  hexadecimal in place of Base64, and ASCII in place of UTF-8 decoding. It has no
  cryptographic strength; it serves to run the service on concrete inputs and to show
  that the library conditions can be met.
\<close>

definition demo_hmac :: "jsstring \<Rightarrow> jsstring \<Rightarrow> buffer" where
  "demo_hmac key content = [foldr (\<lambda>b acc. 31 * acc + b) (utf8_encode (key @ content)) 171]"

definition demo_pad :: "buffer \<Rightarrow> buffer \<Rightarrow> byte" where
  "demo_pad key iv = foldr (XOR) (key @ iv) 0"

definition demo_tag :: "buffer \<Rightarrow> buffer \<Rightarrow> buffer \<Rightarrow> buffer" where
  "demo_tag key iv ciphertext =
     replicate 15 (demo_pad key iv) @ [foldr (XOR) ciphertext (demo_pad key iv)]"

definition demo_gcm_encrypt :: "buffer \<Rightarrow> buffer \<Rightarrow> buffer \<Rightarrow> buffer \<times> buffer" where
  "demo_gcm_encrypt key iv plain =
     (let ciphertext = map (\<lambda>b. b XOR demo_pad key iv) plain
      in (ciphertext, demo_tag key iv ciphertext))"

definition demo_gcm_decrypt :: "buffer \<Rightarrow> buffer \<Rightarrow> buffer \<Rightarrow> buffer \<Rightarrow> buffer option" where
  "demo_gcm_decrypt key iv ciphertext tag =
     (if iv \<noteq> [] \<and> tag = demo_tag key iv ciphertext
      then Some (map (\<lambda>b. b XOR demo_pad key iv) ciphertext)
      else None)"

definition demo_utf8_decode :: "buffer \<Rightarrow> jsstring" where
  "demo_utf8_decode bs = map (\<lambda>b. if unat b < 0x80 then of_nat (unat b) else 0xFFFD) bs"

definition demo_lib :: node_lib where
  "demo_lib =
     \<lparr>hmac_sha256 = demo_hmac,
      gcm_encrypt = demo_gcm_encrypt,
      gcm_decrypt = demo_gcm_decrypt,
      base64_encode = hexEncode,
      base64_decode = hexDecode,
      utf8_decode = demo_utf8_decode,
      toUpperCase = asciiUpper\<rparr>"

section \<open>A concrete deployment\<close>

text \<open>
  A guard configured with the single key \<open>k\<close> for \<open>user-service\<close> (the other three
  services are in the table with the empty key), and a request
  \<open>GET /users/1\<close> without a body from \<open>user-service\<close>, signed under \<open>k\<close> by the
  executable library for the timestamp it carries.
\<close>

definition scenario_guard :: ServiceAuthGuard where
  "scenario_guard = newServiceAuthGuard (Map.empty(''USER_SERVICE_KEY'' \<mapsto> js ''k''))"

definition unsigned_request :: "jsstring \<Rightarrow> jsstring \<Rightarrow> http_request" where
  "unsigned_request sid ts =
     \<lparr>x_service_id = Some sid, x_request_timestamp = Some ts, x_request_signature = None,
      req_method = js ''GET'', req_path = js ''/users/1'', body_json = None\<rparr>"

definition scenario_request :: "jsstring \<Rightarrow> http_request" where
  "scenario_request ts =
     (unsigned_request (js ''user-service'') ts)
       \<lparr>x_request_signature :=
          Some (createSignature demo_lib
                  (signatureContent (unsigned_request (js ''user-service'') ts) ts) (js ''k''))\<rparr>"

text \<open>
  An outgoing \<open>get /users/1\<close> without a body and without headers; a cipher configured with
  the 32-character key of the repository's \<open>.env.example\<close>; a cipher configured with a
  32-character key whose first character is \<open>U+00E9\<close>; and one value that
  \<open>crypto.randomBytes(16)\<close> may return.
\<close>

definition outbound_request :: axios_config where
  "outbound_request =
     \<lparr>cfg_method = Some (js ''get''), cfg_url = Some (js ''/users/1''), data_json = None,
      cfg_headers = None\<rparr>"

definition demo_key_config :: config where
  "demo_key_config = Map.empty(''DB_ENCRYPTION_KEY'' \<mapsto> js ''db_encryption_key_32chars_change'')"


definition accented_key_config :: config where
  "accented_key_config =
     Map.empty(''DB_ENCRYPTION_KEY'' \<mapsto> 0xE9 # js ''b_encryption_key_32chars_change'')"

definition demo_iv :: buffer where
  "demo_iv = [0, 1, 2, 3, 4, 5, 6, 7, 8, 9, 10, 11, 12, 13, 14, 15]"



section \<open>Facts about the encodings\<close>

subsection \<open>Hexadecimal\<close>

lemma unat_hexDigit: "n < 16 \<Longrightarrow> unat (hexDigit n) = (if n < 10 then 48 + n else 87 + n)"
  by (simp add: hexDigit_def unat_of_nat del: of_nat_add)

lemma unhex_hexDigit: "n < 16 \<Longrightarrow> unhex (hexDigit n) = Some n"
  by (simp add: unhex_def unat_hexDigit Let_def)

lemma unat_upper_hexDigit:
  "n < 16 \<Longrightarrow> unat (upperUnit (hexDigit n)) = (if n < 10 then 48 + n else 55 + n)"
proof -
  assume n: "n < 16"
  have "10 \<le> n \<Longrightarrow> hexDigit n - 32 = of_nat (55 + n)"
    by (simp add: hexDigit_def)
  with n show ?thesis
    by (auto simp: upperUnit_def unat_hexDigit unat_of_nat simp del: of_nat_add)
qed

lemma unhex_upper_hexDigit: "n < 16 \<Longrightarrow> unhex (upperUnit (hexDigit n)) = Some n"
  by (simp add: unhex_def unat_upper_hexDigit Let_def)

lemma byte_nibbles: "of_nat (16 * (unat b div 16) + unat b mod 16) = (b::byte)"
  by simp

lemma byte_hi_nibble: "unat (b::byte) div 16 < 16"
proof -
  have "unat b < 256" using unsigned_less [of b] by simp
  then show ?thesis by simp
qed

lemma hexDecode_hexByte: "hexDecode (hexByte b @ rest) = b # hexDecode rest"
  by (simp add: hexByte_def unhex_hexDigit byte_hi_nibble)

lemma hexDecode_hexEncode_append: "hexDecode (hexEncode bs @ rest) = bs @ hexDecode rest"
  by (induction bs) (simp_all add: hexEncode_def hexDecode_hexByte)

lemma hexDecode_hexEncode: "hexDecode (hexEncode bs) = bs"
  using hexDecode_hexEncode_append [of bs "[]"] by simp

lemma hexDecode_upper_hexByte:
  "hexDecode (asciiUpper (hexByte b) @ rest) = b # hexDecode rest"
  by (simp add: hexByte_def asciiUpper_def unhex_upper_hexDigit byte_hi_nibble)

lemma asciiUpper_append: "asciiUpper (xs @ ys) = asciiUpper xs @ asciiUpper ys"
  by (simp add: asciiUpper_def)

lemma hexDecode_upper_hexEncode_append:
  "hexDecode (asciiUpper (hexEncode bs) @ rest) = bs @ hexDecode rest"
proof (induction bs)
  case Nil
  show ?case by (simp add: hexEncode_def asciiUpper_def)
next
  case (Cons b bs)
  have "hexEncode (b # bs) = hexByte b @ hexEncode bs" by (simp add: hexEncode_def)
  then show ?case using Cons.IH
    by (simp add: asciiUpper_append hexDecode_upper_hexByte)
qed

lemma hexDecode_upper_hexEncode: "hexDecode (asciiUpper (hexEncode bs)) = bs"
  using hexDecode_upper_hexEncode_append [of bs "[]"] by simp

lemma length_asciiUpper: "length (asciiUpper s) = length s"
  by (simp add: asciiUpper_def)

lemma safeCompare_upper: "safeCompare (asciiUpper (hexEncode bs)) (hexEncode bs)"
  by (simp add: safeCompare_def timingSafeEqual_def length_asciiUpper
        hexDecode_upper_hexEncode hexDecode_hexEncode)

lemma length_hexEncode: "length (hexEncode bs) = 2 * length bs"
  by (induction bs) (simp_all add: hexEncode_def hexByte_def)

subsection \<open>Decimal strings\<close>

lemma unat_digit_unit: "d < 10 \<Longrightarrow> unat (of_nat (48 + d) :: code_unit) = 48 + d"
  by (simp add: unat_of_nat del: of_nat_add)

lemma uint_digit_unit: "d < 10 \<Longrightarrow> uint (of_nat (48 + d) :: code_unit) = 48 + int d"
  using unat_digit_unit [of d] by (simp add: uint_nat del: of_nat_add)

lemma isDigit_digit_unit: "d < 10 \<Longrightarrow> isDigit (of_nat (48 + d))"
  by (simp add: isDigit_def unat_digit_unit del: of_nat_add)

lemma natToString_digits: "c \<in> set (natToString n) \<Longrightarrow> isDigit c"
proof (induction n arbitrary: c rule: natToString.induct)
  case (1 n)
  show ?case
  proof (cases "n < 10")
    case True
    with "1.prems" show ?thesis
      by (simp add: natToString.simps [of n] isDigit_digit_unit del: of_nat_add)
  next
    case False
    with "1.prems" "1.IH" show ?thesis
      by (auto simp: natToString.simps [of n] isDigit_digit_unit simp del: of_nat_add)
  qed
qed

lemma natToString_nonempty: "natToString n \<noteq> []"
  by (simp add: natToString.simps [of n])

lemma digitsValue_snoc:
  "digitsValue (ds @ [d]) = 10 * digitsValue ds + (uint d - 48)"
  by (simp add: digitsValue_def)

lemma digitsValue_natToString: "digitsValue (natToString n) = int n"
proof (induction n rule: natToString.induct)
  case (1 n)
  show ?case
  proof (cases "n < 10")
    case True
    then show ?thesis
      by (simp add: natToString.simps [of n] digitsValue_def uint_digit_unit del: of_nat_add)
  next
    case False
    have "uint (of_nat (48 + n mod 10) :: code_unit) = 48 + int (n mod 10)"
      by (rule uint_digit_unit) simp
    moreover have "10 * int (n div 10) + int (n mod 10) = int n"
      by presburger
    ultimately show ?thesis using False "1.IH"
      by (simp add: natToString.simps [of n] digitsValue_snoc del: of_nat_add)
  qed
qed

lemma isDigit_not_space: "isDigit c \<Longrightarrow> \<not> isStrWhiteSpaceChar c"
  by (auto simp: isDigit_def isStrWhiteSpaceChar_def word_le_nat_alt)

lemma isDigit_not_sign: "isDigit c \<Longrightarrow> c \<noteq> 0x2D \<and> c \<noteq> 0x2B"
  by (auto simp: isDigit_def)

lemma parseInt_digits:
  assumes "ds \<noteq> []" and "\<forall>c \<in> set ds. isDigit c"
  shows "parseInt ds = Some (digitsValue ds)"
proof -
  obtain c r where ds: "ds = c # r" using assms(1) by (cases ds) auto
  have c: "isDigit c" using assms(2) ds by simp
  have tw: "takeWhile isDigit ds = ds" using assms(2) by (simp add: takeWhile_eq_all_conv)
  have dw: "dropWhile isStrWhiteSpaceChar ds = ds"
    using isDigit_not_space [OF c] ds by simp
  have sg: "(case ds of c # _ \<Rightarrow> if c = 0x2D then - 1 else 1 | [] \<Rightarrow> (1::int)) = 1"
    using isDigit_not_sign [OF c] by (simp add: ds)
  have s1: "(case ds of c # r \<Rightarrow> if c = 0x2D \<or> c = 0x2B then r else ds | [] \<Rightarrow> []) = ds"
    using isDigit_not_sign [OF c] by (simp add: ds)
  show ?thesis
    unfolding parseInt_def dw Let_def sg s1 tw by (simp add: assms(1))
qed

lemma parseInt_minus_digits:
  assumes "ds \<noteq> []" and "\<forall>c \<in> set ds. isDigit c"
  shows "parseInt (0x2D # ds) = Some (- digitsValue ds)"
proof -
  have tw: "takeWhile isDigit ds = ds" using assms(2) by (simp add: takeWhile_eq_all_conv)
  have ns: "\<not> isStrWhiteSpaceChar 0x2D" by (simp add: isStrWhiteSpaceChar_def)
  show ?thesis
    unfolding parseInt_def Let_def by (simp add: tw assms(1) ns)
qed

lemma parseInt_toString: "parseInt (toString i) = Some i"
proof (cases "i < 0")
  case True
  then show ?thesis
    using parseInt_minus_digits [of "natToString (nat (- i))"]
    by (simp add: toString_def natToString_nonempty natToString_digits digitsValue_natToString)
next
  case False
  then show ?thesis
    using parseInt_digits [of "natToString (nat i)"]
    by (simp add: toString_def natToString_nonempty natToString_digits digitsValue_natToString)
qed

lemma toString_nonempty: "toString i \<noteq> []"
  by (simp add: toString_def natToString_nonempty)

section \<open>The inbound verifier\<close>

lemma canActivate_checks:
  "canActivate lib guard now request =
     (if \<not> headerPresence request then Inl MissingHeaders
      else if \<not> knownService guard request then Inl (UnknownService (claimedService request))
      else if \<not> freshTimestamp now request then Inl ExpiredOrInvalidTimestamp
      else if \<not> keyPresent guard request then Inl InvalidCredentials
      else if \<not> signatureMatch lib guard request then Inl InvalidSignature
      else Inr True)"
  by (simp add: canActivate_def headerPresence_def knownService_def freshTimestamp_def
        keyPresent_def signatureMatch_def expectedSignature_def claimedService_def falsy_def
      split: option.splits)

lemma safeCompare_refl: "safeCompare s s"
  by (simp add: safeCompare_def timingSafeEqual_def)

lemma createSignature_nonempty:
  "hmac_sha256 lib key content \<noteq> [] \<Longrightarrow> createSignature lib content key \<noteq> []"
  using length_hexEncode [of "hmac_sha256 lib key content"] by (auto simp: createSignature_def)

lemma scenario_keys:
  "apiKeys scenario_guard =
     [(js ''user-service'', js ''k''), (js ''api-gateway'', []), (js ''pet-service'', []),
      (js ''auth-service'', [])]"
  by (simp add: scenario_guard_def newServiceAuthGuard_def configGet_def)

lemma scenario_allowed:
  "allowedServices scenario_guard =
     [js ''user-service'', js ''api-gateway'', js ''pet-service'', js ''auth-service'']"
  by (simp add: scenario_guard_def newServiceAuthGuard_def configGet_def)

lemma scenario_header: "ts \<noteq> [] \<Longrightarrow> headerPresence (scenario_request ts)"
  by (simp add: headerPresence_def scenario_request_def unsigned_request_def falsy_def
        createSignature_def demo_lib_def demo_hmac_def hexEncode_def hexByte_def js_def)

lemma scenario_known: "knownService scenario_guard (scenario_request ts)"
  by (simp add: knownService_def scenario_request_def unsigned_request_def scenario_allowed)

lemma scenario_key: "keyPresent scenario_guard (scenario_request ts)"
  by (simp add: keyPresent_def scenario_request_def unsigned_request_def scenario_keys js_def)

lemma scenario_sig: "signatureMatch demo_lib scenario_guard (scenario_request ts)"
  by (simp add: signatureMatch_def expectedSignature_def scenario_request_def
        unsigned_request_def scenario_keys safeCompare_refl signatureContent_def bodyContent_def)

lemma scenario_fresh: "now - t \<le> 300 \<Longrightarrow> freshTimestamp now (scenario_request (toString t))"
  by (simp add: freshTimestamp_def scenario_request_def unsigned_request_def parseInt_toString)

lemma scenario_stale:
  "now - t > 300 \<Longrightarrow> \<not> freshTimestamp now (scenario_request (toString t))"
  by (simp add: freshTimestamp_def scenario_request_def unsigned_request_def parseInt_toString)

lemma scenario_timestamp: "x_request_timestamp (scenario_request ts) = Some ts"
  by (simp add: scenario_request_def unsigned_request_def)

subsection \<open>The order of the checks\<close>

text \<open>
  Claim C3. The verifier applies five checks in the fixed order header presence, known
  service, fresh timestamp, key present, signature match. Its result is the rejection of
  the first check that fails, whatever the later checks would say, and it accepts exactly
  when all five checks pass.
\<close>

theorem verifier_first_failure_wins:
  "canActivate lib guard now request =
     (if \<not> headerPresence request then Inl MissingHeaders
      else if \<not> knownService guard request then Inl (UnknownService (claimedService request))
      else if \<not> freshTimestamp now request then Inl ExpiredOrInvalidTimestamp
      else if \<not> keyPresent guard request then Inl InvalidCredentials
      else if \<not> signatureMatch lib guard request then Inl InvalidSignature
      else Inr True)
   \<and> (canActivate lib guard now request = Inr True \<longleftrightarrow>
        headerPresence request \<and> knownService guard request \<and> freshTimestamp now request
        \<and> keyPresent guard request \<and> signatureMatch lib guard request)"
  by (simp add: canActivate_checks)

theorem verifier_first_failure_wins_witness:
  "headerPresence (scenario_request (toString 1700000000))
   \<and> knownService scenario_guard (scenario_request (toString 1700000000))
   \<and> freshTimestamp 1700000100 (scenario_request (toString 1700000000))
   \<and> keyPresent scenario_guard (scenario_request (toString 1700000000))
   \<and> signatureMatch demo_lib scenario_guard (scenario_request (toString 1700000000))
   \<and> canActivate demo_lib scenario_guard 1700000100 (scenario_request (toString 1700000000))
       = Inr True
   \<and> canActivate demo_lib scenario_guard 1700000100
        ((scenario_request (toString 1700000000))\<lparr>x_service_id := Some (js ''billing'')\<rparr>)
       = Inl (UnknownService (js ''billing''))"
proof -
  let ?r = "scenario_request (toString 1700000000)"
  let ?u = "?r\<lparr>x_service_id := Some (js ''billing'')\<rparr>"
  have h: "headerPresence ?r" by (simp add: scenario_header toString_nonempty)
  have k: "knownService scenario_guard ?r" by (rule scenario_known)
  have f: "freshTimestamp 1700000100 ?r" by (rule scenario_fresh) simp
  have p: "keyPresent scenario_guard ?r" by (rule scenario_key)
  have m: "signatureMatch demo_lib scenario_guard ?r" by (rule scenario_sig)
  have hu: "headerPresence ?u" using h by (simp add: headerPresence_def falsy_def js_def)
  have ku: "\<not> knownService scenario_guard ?u"
    by (simp add: knownService_def scenario_allowed js_def)
  have cu: "claimedService ?u = js ''billing''" by (simp add: claimedService_def)
  from verifier_first_failure_wins [of demo_lib scenario_guard 1700000100 ?r]
       verifier_first_failure_wins [of demo_lib scenario_guard 1700000100 ?u]
  show ?thesis using h k f p m hu ku cu by simp
qed

subsection \<open>The replay window\<close>

text \<open>
  Claim C2. For a request that passes the four other checks, a timestamp that
  \<open>parseInt\<close> cannot read, or one more than 300 seconds old, is rejected as expired or
  invalid, and one exactly 300 seconds old is accepted. In particular, at time \<open>T\<close> the
  timestamp \<open>T - 300\<close> is accepted and \<open>T - 301\<close> is rejected.
\<close>

theorem freshness_boundary:
  assumes "headerPresence request" and "knownService guard request"
    and "keyPresent guard request" and "signatureMatch lib guard request"
    and "x_request_timestamp request = Some ts"
  shows "(parseInt ts = None \<longrightarrow>
            canActivate lib guard now request = Inl ExpiredOrInvalidTimestamp)
       \<and> (\<forall>t. parseInt ts = Some t \<and> now - t > 300 \<longrightarrow>
            canActivate lib guard now request = Inl ExpiredOrInvalidTimestamp)
       \<and> (\<forall>t. parseInt ts = Some t \<and> now - t = 300 \<longrightarrow>
            canActivate lib guard now request = Inr True)
       \<and> (ts = toString (now - 300) \<longrightarrow> canActivate lib guard now request = Inr True)
       \<and> (ts = toString (now - 301) \<longrightarrow>
            canActivate lib guard now request = Inl ExpiredOrInvalidTimestamp)"
  using assms
  by (simp add: canActivate_checks freshTimestamp_def parseInt_toString)

theorem freshness_boundary_witness:
  "canActivate demo_lib scenario_guard 1700000300 (scenario_request (toString 1700000000))
     = Inr True
   \<and> canActivate demo_lib scenario_guard 1700000301 (scenario_request (toString 1700000000))
     = Inl ExpiredOrInvalidTimestamp"
proof -
  let ?r = "scenario_request (toString 1700000000)"
  have h: "headerPresence ?r" by (simp add: scenario_header toString_nonempty)
  note b = freshness_boundary [OF h scenario_known scenario_key scenario_sig scenario_timestamp]
  from b [of 1700000300] b [of 1700000301] show ?thesis by simp
qed

text \<open>
  Claim C10. The freshness check bounds the age of a timestamp only. A timestamp that
  \<open>parseInt\<close> reads as a time at or after the current time, however far in the future,
  passes the check: the request is not rejected as expired, and it is accepted when the
  other four checks pass.
\<close>

theorem future_timestamps_pass:
  assumes "x_request_timestamp request = Some ts" and "parseInt ts = Some t" and "now \<le> t"
  shows "freshTimestamp now request
       \<and> canActivate lib guard now request \<noteq> Inl ExpiredOrInvalidTimestamp
       \<and> (headerPresence request \<and> knownService guard request \<and> keyPresent guard request
            \<and> signatureMatch lib guard request
          \<longrightarrow> canActivate lib guard now request = Inr True)"
  using assms by (simp add: canActivate_checks freshTimestamp_def)

theorem future_timestamps_pass_witness:
  "parseInt (toString 99999999999) = Some 99999999999
   \<and> (1700000000::int) \<le> 99999999999
   \<and> freshTimestamp 1700000000 (scenario_request (toString 99999999999))
   \<and> canActivate demo_lib scenario_guard 1700000000 (scenario_request (toString 99999999999))
       = Inr True"
proof -
  let ?r = "scenario_request (toString 99999999999)"
  have h: "headerPresence ?r" by (simp add: scenario_header toString_nonempty)
  have le: "(1700000000::int) \<le> 99999999999" by simp
  from future_timestamps_pass [OF scenario_timestamp parseInt_toString le,
         of demo_lib scenario_guard]
  show ?thesis using h scenario_known scenario_key scenario_sig
    by (simp add: parseInt_toString)
qed

lemma expectedSignature_signature_update:
  "expectedSignature lib guard (request\<lparr>x_request_signature := sg\<rparr>)
     = expectedSignature lib guard request"
  by (simp add: expectedSignature_def signatureContent_def bodyContent_def split: option.splits)

lemma safeCompare_upper_expected:
  "keyPresent guard request \<Longrightarrow> headerPresence request \<Longrightarrow>
   safeCompare (asciiUpper (expectedSignature lib guard request))
     (expectedSignature lib guard request)"
  by (auto simp: keyPresent_def headerPresence_def falsy_def expectedSignature_def
        createSignature_def safeCompare_upper split: option.splits)

lemma asciiUpper_empty_iff: "asciiUpper s = [] \<longleftrightarrow> s = []"
  by (simp add: asciiUpper_def)

subsection \<open>Letter case of the signature\<close>

text \<open>
  Claim C9. The signature comparison decodes both strings from hexadecimal before it
  compares them. So when a request carrying the correct lowercase signature is accepted,
  the same request carrying the uppercase form of that signature, a string of the same
  length, is accepted as well.
\<close>

theorem uppercase_signature_accepted:
  assumes "canActivate lib guard now request = Inr True"
    and "x_request_signature request = Some (expectedSignature lib guard request)"
  shows "canActivate lib guard now
           (request\<lparr>x_request_signature :=
                      Some (asciiUpper (expectedSignature lib guard request))\<rparr>) = Inr True
       \<and> length (asciiUpper (expectedSignature lib guard request))
           = length (expectedSignature lib guard request)
       \<and> safeCompare (asciiUpper (expectedSignature lib guard request))
           (expectedSignature lib guard request)"
proof -
  let ?e = "expectedSignature lib guard request"
  let ?r = "request\<lparr>x_request_signature := Some (asciiUpper ?e)\<rparr>"
  from assms(1) have h: "headerPresence request" and k: "knownService guard request"
    and f: "freshTimestamp now request" and p: "keyPresent guard request"
    by (simp_all add: canActivate_checks split: if_splits)
  have cmp: "safeCompare (asciiUpper ?e) ?e" using p h by (rule safeCompare_upper_expected)
  from h assms(2) have "?e \<noteq> []" by (simp add: headerPresence_def falsy_def)
  then have h': "headerPresence ?r"
    using h by (simp add: headerPresence_def falsy_def asciiUpper_empty_iff)
  have k': "knownService guard ?r" using k by (simp add: knownService_def)
  have f': "freshTimestamp now ?r" using f by (simp add: freshTimestamp_def)
  have p': "keyPresent guard ?r" using p by (simp add: keyPresent_def)
  have m': "signatureMatch lib guard ?r"
    using cmp by (simp add: signatureMatch_def expectedSignature_signature_update)
  have "canActivate lib guard now ?r = Inr True"
    using h' k' f' p' m' by (simp add: canActivate_checks)
  then show ?thesis using cmp by (simp add: length_asciiUpper)
qed

lemma scenario_expected:
  "expectedSignature demo_lib scenario_guard (scenario_request (toString 1700000000)) = js ''d9''"
  by (simp add: expectedSignature_def scenario_request_def unsigned_request_def scenario_keys
       createSignature_def demo_lib_def demo_hmac_def signatureContent_def bodyContent_def
       toString_def natToString.simps js_def utf8_code_point_def isHighSurrogate_def
       isLowSurrogate_def hexEncode_def hexByte_def hexDigit_def)

lemma scenario_signature:
  "x_request_signature (scenario_request ts)
     = Some (expectedSignature demo_lib scenario_guard (scenario_request ts))"
  by (simp add: expectedSignature_def scenario_request_def unsigned_request_def scenario_keys
       signatureContent_def bodyContent_def)

lemma scenario_accepted:
  "now - t \<le> 300 \<Longrightarrow>
   canActivate demo_lib scenario_guard now (scenario_request (toString t)) = Inr True"
  by (simp add: canActivate_checks scenario_header toString_nonempty scenario_known
        scenario_fresh scenario_key scenario_sig)

theorem uppercase_signature_accepted_witness:
  "canActivate demo_lib scenario_guard 1700000100 (scenario_request (toString 1700000000))
     = Inr True
   \<and> x_request_signature (scenario_request (toString 1700000000)) = Some (js ''d9'')
   \<and> canActivate demo_lib scenario_guard 1700000100
        ((scenario_request (toString 1700000000))\<lparr>x_request_signature := Some (js ''D9'')\<rparr>)
     = Inr True"
proof -
  let ?r = "scenario_request (toString 1700000000)"
  have a: "canActivate demo_lib scenario_guard 1700000100 ?r = Inr True"
    by (rule scenario_accepted) simp
  have u: "asciiUpper (js ''d9'') = js ''D9''"
    by (simp add: asciiUpper_def upperUnit_def js_def)
  from uppercase_signature_accepted [OF a scenario_signature]
  show ?thesis using a scenario_signature [of "toString 1700000000"]
    by (simp add: scenario_expected u)
qed

subsection \<open>A known service without a key\<close>

lemma registry_allowed:
  "map_of (apiKeys (newServiceAuthGuard cfg)) sid = Some key \<Longrightarrow>
   sid \<in> set (allowedServices (newServiceAuthGuard cfg))"
  by (auto simp: newServiceAuthGuard_def Let_def split: if_splits)

text \<open>
  As the claim is written, every such request is rejected as invalid service credentials.
  A request for \<open>api-gateway\<close>, which is in the table with the empty key, carrying a
  timestamp far in the past is rejected as expired instead: the freshness check comes
  first.
\<close>

theorem known_service_empty_key_counterexample:
  "map_of (apiKeys scenario_guard) (js ''api-gateway'') = Some []
   \<and> js ''api-gateway'' \<in> set (allowedServices scenario_guard)
   \<and> canActivate demo_lib scenario_guard 1700000100
        ((unsigned_request (js ''api-gateway'') (toString 1000))
           \<lparr>x_request_signature := Some (js ''00'')\<rparr>)
       = Inl ExpiredOrInvalidTimestamp
   \<and> canActivate demo_lib scenario_guard 1700000100
        ((unsigned_request (js ''api-gateway'') (toString 1000))
           \<lparr>x_request_signature := Some (js ''00'')\<rparr>)
       \<noteq> Inl InvalidCredentials"
proof -
  let ?r = "(unsigned_request (js ''api-gateway'') (toString 1000))
              \<lparr>x_request_signature := Some (js ''00'')\<rparr>"
  have h: "headerPresence ?r"
    using toString_nonempty [of 1000]
    by (simp add: headerPresence_def unsigned_request_def falsy_def js_def)
  have k: "knownService scenario_guard ?r"
    by (simp add: knownService_def unsigned_request_def scenario_allowed)
  have f: "\<not> freshTimestamp 1700000100 ?r"
    by (simp add: freshTimestamp_def unsigned_request_def parseInt_toString)
  have c: "canActivate demo_lib scenario_guard 1700000100 ?r = Inl ExpiredOrInvalidTimestamp"
    using h k f by (simp add: canActivate_checks)
  have m: "map_of (apiKeys scenario_guard) (js ''api-gateway'') = Some []"
    by (simp add: scenario_keys js_def)
  show ?thesis using c m by (simp add: scenario_allowed)
qed

text \<open>
  Claim C5, amended. A request whose service identifier is in the registry with an empty
  key is never accepted. When its three headers are present and its timestamp is fresh,
  it is rejected as invalid service credentials, whatever signature it carries; a request
  that fails one of those two earlier checks is rejected for that check instead.
\<close>

theorem known_service_empty_key_rejected:
  assumes "x_service_id request = Some sid"
    and "map_of (apiKeys (newServiceAuthGuard cfg)) sid = Some []"
  shows "canActivate lib (newServiceAuthGuard cfg) now request \<noteq> Inr True
       \<and> (headerPresence request \<and> freshTimestamp now request \<longrightarrow>
            canActivate lib (newServiceAuthGuard cfg) now request = Inl InvalidCredentials)"
proof -
  have k: "knownService (newServiceAuthGuard cfg) request"
    using assms registry_allowed [OF assms(2)] by (simp add: knownService_def)
  have p: "\<not> keyPresent (newServiceAuthGuard cfg) request"
    using assms by (simp add: keyPresent_def)
  show ?thesis using k p by (simp add: canActivate_checks)
qed

theorem known_service_empty_key_rejected_witness:
  "map_of (apiKeys (newServiceAuthGuard (Map.empty(''USER_SERVICE_KEY'' \<mapsto> js ''k''))))
      (js ''api-gateway'') = Some []
   \<and> canActivate demo_lib (newServiceAuthGuard (Map.empty(''USER_SERVICE_KEY'' \<mapsto> js ''k'')))
        1700000100
        ((unsigned_request (js ''api-gateway'') (toString 1700000000))
           \<lparr>x_request_signature := Some (js ''00'')\<rparr>)
       = Inl InvalidCredentials"
proof -
  let ?r = "(unsigned_request (js ''api-gateway'') (toString 1700000000))
              \<lparr>x_request_signature := Some (js ''00'')\<rparr>"
  let ?cfg = "Map.empty(''USER_SERVICE_KEY'' \<mapsto> js ''k'')"
  have s: "x_service_id ?r = Some (js ''api-gateway'')" by (simp add: unsigned_request_def)
  have m: "map_of (apiKeys (newServiceAuthGuard ?cfg)) (js ''api-gateway'') = Some []"
    using scenario_keys by (simp add: scenario_guard_def js_def)
  have h: "headerPresence ?r"
    using toString_nonempty [of 1700000000]
    by (simp add: headerPresence_def unsigned_request_def falsy_def js_def)
  have f: "freshTimestamp 1700000100 ?r"
    by (simp add: freshTimestamp_def unsigned_request_def parseInt_toString)
  from known_service_empty_key_rejected [OF s m, of demo_lib 1700000100]
  show ?thesis using m h f by simp
qed

section \<open>The field cipher\<close>

subsection \<open>Slices\<close>

lemma bufferSlice_iv:
  "32 \<le> length buf \<Longrightarrow> bufferSlice buf 0 (int ivLength) = take 16 buf"
  by (simp add: bufferSlice_def ivLength_def Let_def min_def)

lemma bufferSlice_authTag:
  "32 \<le> length buf \<Longrightarrow>
   bufferSlice buf (int (length buf) - int authTagLength) (int (length buf))
     = drop (length buf - 16) buf"
  by (simp add: bufferSlice_def authTagLength_def Let_def min_def nat_diff_distrib')

lemma bufferSlice_encrypted:
  "32 \<le> length buf \<Longrightarrow>
   bufferSlice buf (int ivLength) (int (length buf) - int authTagLength)
     = take (length buf - 32) (drop 16 buf)"
  by (auto simp: bufferSlice_def ivLength_def authTagLength_def Let_def min_def nat_diff_distrib')

lemma split_blob:
  assumes "length iv = 16" and "length tag = 16"
  shows "take 16 (iv @ ct @ tag) = iv"
    and "drop (length (iv @ ct @ tag) - 16) (iv @ ct @ tag) = tag"
    and "take (length (iv @ ct @ tag) - 32) (drop 16 (iv @ ct @ tag)) = ct"
  using assms by simp_all

subsection \<open>The executable library\<close>


subsection \<open>UTF-8 of ASCII text\<close>

lemma utf8_encode_ascii:
  "\<forall>u \<in> set s. unat u < 0x80 \<Longrightarrow> utf8_encode s = map (\<lambda>u. of_nat (unat u)) s"
  by (induction s rule: utf8_encode.induct)
     (simp_all add: isHighSurrogate_def isLowSurrogate_def utf8_code_point_def)

lemma length_utf8_encode_ascii:
  "\<forall>u \<in> set s. unat u < 0x80 \<Longrightarrow> length (utf8_encode s) = length s"
  by (simp add: utf8_encode_ascii)


subsection \<open>Encrypting and decrypting\<close>

lemma encrypt_blob:
  assumes "validKeyLength (encryptionKey svc)" and "text \<noteq> []"
  shows "encrypt lib svc iv text =
           Inr (base64_encode lib
                  (iv @ fst (gcm_encrypt lib (encryptionKey svc) iv (utf8_encode text))
                      @ snd (gcm_encrypt lib (encryptionKey svc) iv (utf8_encode text))))"
  using assms by (simp add: encrypt_def hexDecode_hexEncode split: prod.splits)

lemma decrypt_parts:
  assumes "validKeyLength (encryptionKey svc)" and "encryptedText \<noteq> []"
    and "32 \<le> length (base64_decode lib encryptedText)"
  shows "decrypt lib svc encryptedText =
           (case gcm_decrypt lib (encryptionKey svc)
                   (take 16 (base64_decode lib encryptedText))
                   (take (length (base64_decode lib encryptedText) - 32)
                      (drop 16 (base64_decode lib encryptedText)))
                   (drop (length (base64_decode lib encryptedText) - 16)
                      (base64_decode lib encryptedText)) of
              None \<Rightarrow> js ''[Decryption failed]''
            | Some plain \<Rightarrow> utf8_decode lib plain)"
  using assms
  by (simp add: decrypt_def Let_def hexDecode_hexEncode bufferSlice_iv bufferSlice_authTag
        bufferSlice_encrypted)

lemma encrypt_decrypt_roundtrip:
  assumes ok: "lib_ok lib" and key: "validKeyLength (encryptionKey svc)"
    and iv: "length iv = 16" and nonempty: "text \<noteq> []"
    and utf8: "utf8_decode lib (utf8_encode text) = text"
  shows "\<exists>blob. encrypt lib svc iv text = Inr blob \<and> decrypt lib svc blob = text"
proof -
  let ?k = "encryptionKey svc"
  let ?c = "fst (gcm_encrypt lib ?k iv (utf8_encode text))"
  let ?t = "snd (gcm_encrypt lib ?k iv (utf8_encode text))"
  let ?buf = "iv @ ?c @ ?t"
  let ?blob = "base64_encode lib ?buf"
  have t16: "length ?t = 16" using ok by (simp add: lib_ok_def)
  have dec: "base64_decode lib ?blob = ?buf" using ok by (simp add: lib_ok_def)
  have "?buf \<noteq> []" using iv by auto
  then have ne: "?blob \<noteq> []" using ok by (simp add: lib_ok_def)
  have big: "32 \<le> length (base64_decode lib ?blob)" using iv t16 by (simp add: dec)
  have "iv \<noteq> []" using iv by auto
  then have g: "gcm_decrypt lib ?k iv ?c ?t = Some (utf8_encode text)"
    using ok key by (simp add: lib_ok_def validKeyLength_def)
  have "decrypt lib svc ?blob = text"
    unfolding decrypt_parts [OF key ne big] dec
    using split_blob [OF iv t16, of ?c] g utf8 by simp
  then show ?thesis using encrypt_blob [OF key nonempty] by simp
qed

subsection \<open>The key at construction\<close>

lemma fallback_key_length:
  "length (utf8_encode (js ''dbencryptionsecretkeyfordevelopment'')) = 35"
  by (simp add: js_def isHighSurrogate_def isLowSurrogate_def utf8_code_point_def)

lemma short_key_service:
  assumes "case cfg ''DB_ENCRYPTION_KEY'' of None \<Rightarrow> True | Some k \<Rightarrow> length k < 32"
  shows "newDatabaseEncryptionService cfg =
           (\<lparr>encryptionKey = utf8_encode (js ''dbencryptionsecretkeyfordevelopment'')\<rparr>,
            [js ''Warning: DB_ENCRYPTION_KEY is missing or too short. Defaulting to a development key.''])"
  using assms
  by (auto simp: newDatabaseEncryptionService_def configGet_def Let_def split: option.splits)

lemma encrypt_invalid_key:
  "\<not> validKeyLength (encryptionKey svc) \<Longrightarrow> text \<noteq> [] \<Longrightarrow>
   encrypt lib svc iv text = Inl (Error (js ''Failed to encrypt data''))"
  by (simp add: encrypt_def)

lemma decrypt_invalid_key:
  "\<not> validKeyLength (encryptionKey svc) \<Longrightarrow> encryptedText \<noteq> [] \<Longrightarrow>
   decrypt lib svc encryptedText = js ''[Decryption failed]''"
  by (simp add: decrypt_def Let_def)

text \<open>
  With no key configured the constructor returns a service, and the key of that
  service is the development key written in the source.
\<close>

theorem cipher_construction_counterexample:
  "newDatabaseEncryptionService Map.empty =
     (\<lparr>encryptionKey = utf8_encode (js ''dbencryptionsecretkeyfordevelopment'')\<rparr>,
      [js ''Warning: DB_ENCRYPTION_KEY is missing or too short. Defaulting to a development key.''])"
  by (rule short_key_service) simp

text \<open>
  Claim C1, amended. Construction of the field cipher never fails. When the configured
  key is missing or shorter than 32 characters the constructor writes a warning to the
  console and takes the development key written in the source; otherwise it takes the
  UTF-8 bytes of the first 32 characters of the configured key and writes nothing.
\<close>

theorem cipher_construction_falls_back:
  "((case cfg ''DB_ENCRYPTION_KEY'' of None \<Rightarrow> True | Some k \<Rightarrow> length k < 32) \<longrightarrow>
      newDatabaseEncryptionService cfg =
        (\<lparr>encryptionKey = utf8_encode (js ''dbencryptionsecretkeyfordevelopment'')\<rparr>,
         [js ''Warning: DB_ENCRYPTION_KEY is missing or too short. Defaulting to a development key.'']))
   \<and> (\<forall>k. cfg ''DB_ENCRYPTION_KEY'' = Some k \<and> 32 \<le> length k \<longrightarrow>
         newDatabaseEncryptionService cfg = (\<lparr>encryptionKey = utf8_encode (take 32 k)\<rparr>, []))"
  by (auto simp: short_key_service)
     (auto simp: newDatabaseEncryptionService_def configGet_def Let_def)

theorem cipher_construction_falls_back_witness:
  "newDatabaseEncryptionService (Map.empty(''DB_ENCRYPTION_KEY'' \<mapsto> js ''short'')) =
     (\<lparr>encryptionKey = utf8_encode (js ''dbencryptionsecretkeyfordevelopment'')\<rparr>,
      [js ''Warning: DB_ENCRYPTION_KEY is missing or too short. Defaulting to a development key.''])
   \<and> newDatabaseEncryptionService demo_key_config =
       (\<lparr>encryptionKey = utf8_encode (js ''db_encryption_key_32chars_change'')\<rparr>, [])"
  using cipher_construction_falls_back [of "Map.empty(''DB_ENCRYPTION_KEY'' \<mapsto> js ''short'')"]
        cipher_construction_falls_back [of demo_key_config]
  by (simp add: demo_key_config_def js_def)

text \<open>
  Claim C8. When the configured key is missing or shorter than 32 characters, the key
  that the constructor takes has 35 bytes, which is not a key length of AES-256. So
  \<open>encrypt\<close> throws \<open>Failed to encrypt data\<close> for every non-empty plaintext, and
  \<open>decrypt\<close> returns the placeholder for every non-empty input.
\<close>

theorem fallback_key_unusable:
  assumes "case cfg ''DB_ENCRYPTION_KEY'' of None \<Rightarrow> True | Some k \<Rightarrow> length k < 32"
  shows "length (encryptionKey (fst (newDatabaseEncryptionService cfg))) = 35
       \<and> (\<forall>lib iv text. text \<noteq> [] \<longrightarrow>
            encrypt lib (fst (newDatabaseEncryptionService cfg)) iv text
              = Inl (Error (js ''Failed to encrypt data'')))
       \<and> (\<forall>lib encryptedText. encryptedText \<noteq> [] \<longrightarrow>
            decrypt lib (fst (newDatabaseEncryptionService cfg)) encryptedText
              = js ''[Decryption failed]'')"
proof -
  let ?svc = "fst (newDatabaseEncryptionService cfg)"
  have len: "length (encryptionKey ?svc) = 35"
    using assms by (simp add: short_key_service [of cfg] fallback_key_length)
  then have "\<not> validKeyLength (encryptionKey ?svc)" by (simp add: validKeyLength_def)
  then show ?thesis using len by (simp add: encrypt_invalid_key decrypt_invalid_key)
qed

theorem fallback_key_unusable_witness:
  "length (encryptionKey (fst (newDatabaseEncryptionService Map.empty))) = 35
   \<and> encrypt demo_lib (fst (newDatabaseEncryptionService Map.empty)) demo_iv (js ''a'')
       = Inl (Error (js ''Failed to encrypt data''))
   \<and> decrypt demo_lib (fst (newDatabaseEncryptionService Map.empty)) (js ''AAAA'')
       = js ''[Decryption failed]''"
proof -
  have c: "case Map.empty ''DB_ENCRYPTION_KEY'' of None \<Rightarrow> True
           | Some (k::jsstring) \<Rightarrow> length k < 32"
    by simp
  have "js ''a'' \<noteq> []" and "js ''AAAA'' \<noteq> []" by (simp_all add: js_def)
  with fallback_key_unusable [of Map.empty] c show ?thesis by blast
qed

subsection \<open>Keys that are not ASCII\<close>

text \<open>
  Claim C4. The claim is that every key of at least 32 characters gives a cipher that
  decrypts what it encrypts. The constructor cuts the key to 32 characters, not to 32
  bytes: for the 32-character key that starts with \<open>U+00E9\<close> the derived key has 33
  bytes, \<open>createCipheriv\<close> rejects it, and \<open>encrypt\<close> throws for the plaintext \<open>a\<close>
  under every library and every IV.
\<close>

theorem non_ascii_key_cannot_encrypt:
  "length (0xE9 # js ''b_encryption_key_32chars_change'') = 32
   \<and> length (encryptionKey (fst (newDatabaseEncryptionService accented_key_config))) = 33
   \<and> encrypt lib (fst (newDatabaseEncryptionService accented_key_config)) iv (js ''a'')
       = Inl (Error (js ''Failed to encrypt data''))"
proof -
  let ?svc = "fst (newDatabaseEncryptionService accented_key_config)"
  have len: "length (encryptionKey ?svc) = 33"
    by (simp add: newDatabaseEncryptionService_def accented_key_config_def configGet_def
          js_def isHighSurrogate_def isLowSurrogate_def utf8_code_point_def)
  then have "\<not> validKeyLength (encryptionKey ?svc)" by (simp add: validKeyLength_def)
  moreover have "js ''a'' \<noteq> []" by (simp add: js_def)
  ultimately show ?thesis using len by (simp add: encrypt_invalid_key) (simp add: js_def)
qed

lemma ascii_key_roundtrip:
  assumes "lib_ok lib" and "cfg ''DB_ENCRYPTION_KEY'' = Some k" and "32 \<le> length k"
    and "\<forall>u \<in> set (take 32 k). unat u < 0x80"
    and "length iv = 16" and "text \<noteq> []" and "utf8_decode lib (utf8_encode text) = text"
  shows "\<exists>blob. encrypt lib (fst (newDatabaseEncryptionService cfg)) iv text = Inr blob
               \<and> decrypt lib (fst (newDatabaseEncryptionService cfg)) blob = text"
proof -
  have "encryptionKey (fst (newDatabaseEncryptionService cfg)) = utf8_encode (take 32 k)"
    using assms(2,3) by (auto simp: newDatabaseEncryptionService_def configGet_def Let_def)
  then have "validKeyLength (encryptionKey (fst (newDatabaseEncryptionService cfg)))"
    using assms(3,4) by (simp add: validKeyLength_def length_utf8_encode_ascii)
  then show ?thesis by (rule encrypt_decrypt_roundtrip [OF assms(1) _ assms(5,6,7)])
qed

subsection \<open>Modified blobs\<close>



lemma blob_bytes:
  assumes "lib_ok lib" and "validKeyLength (encryptionKey svc)" and "text \<noteq> []"
    and "encrypt lib svc iv text = Inr blob"
  shows "base64_decode lib blob =
           iv @ fst (gcm_encrypt lib (encryptionKey svc) iv (utf8_encode text))
              @ snd (gcm_encrypt lib (encryptionKey svc) iv (utf8_encode text))"
  using assms by (auto simp: encrypt_blob lib_ok_def)

lemma blob_length:
  assumes "lib_ok lib" and "validKeyLength (encryptionKey svc)" and "text \<noteq> []"
    and "encrypt lib svc iv text = Inr blob" and "length iv = 16"
  shows "32 \<le> length (base64_decode lib blob)"
  using assms(1,5) by (simp add: blob_bytes [OF assms(1,2,3,4)] lib_ok_def)


subsection \<open>The executable cipher on concrete inputs\<close>










subsection \<open>One flipped bit\<close>






lemma length_demo_tag: "length (demo_tag k iv c) = 16"
  by (simp add: demo_tag_def)







subsection \<open>The outbound signer\<close>

lemma signRequest_headers:
  "header (signRequest lib client now config) (js ''x-service-id'') = Some (serviceId client)"
  "header (signRequest lib client now config) (js ''x-request-timestamp'') = Some (toString now)"
  "header (signRequest lib client now config) (js ''x-request-signature'')
     = Some (createSignature lib (outboundContent lib (toString now) config) (serviceKey client))"
  by (simp_all add: header_def signRequest_def Let_def js_def)

lemma client_without_key:
  assumes "case cfg ''USER_SERVICE_KEY'' of None \<Rightarrow> True | Some k \<Rightarrow> k = []"
  shows "newServiceAuthClient cfg =
           (\<lparr>serviceId = js ''user-service'', serviceKey = []\<rparr>,
            [js ''Warning: USER_SERVICE_KEY is not set. Service authentication will fail.''])"
  using assms by (auto simp: newServiceAuthClient_def configGet_def Let_def split: option.splits)

lemma outbound_content:
  "outboundContent demo_lib (toString 1700000000) outbound_request
     = js ''GET:/users/1:1700000000:''"
  by (simp add: outboundContent_def outbound_request_def demo_lib_def asciiUpper_def
        upperUnit_def toString_def natToString.simps js_def)

lemma outbound_signature:
  "createSignature demo_lib (js ''GET:/users/1:1700000000:'') [] = js ''d2''"
  by (simp add: createSignature_def demo_lib_def demo_hmac_def js_def isHighSurrogate_def
        isLowSurrogate_def utf8_code_point_def hexEncode_def hexByte_def hexDigit_def)

text \<open>
  With no key configured the constructor returns a client with the empty key, and that
  client signs a request under the empty key.
\<close>

theorem signer_without_key_counterexample:
  "newServiceAuthClient Map.empty =
     (\<lparr>serviceId = js ''user-service'', serviceKey = []\<rparr>,
      [js ''Warning: USER_SERVICE_KEY is not set. Service authentication will fail.''])
   \<and> header (signRequest demo_lib (fst (newServiceAuthClient Map.empty)) 1700000000
               outbound_request) (js ''x-request-signature'')
       = Some (js ''d2'')"
proof -
  have c: "newServiceAuthClient Map.empty =
     (\<lparr>serviceId = js ''user-service'', serviceKey = []\<rparr>,
      [js ''Warning: USER_SERVICE_KEY is not set. Service authentication will fail.''])"
    by (rule client_without_key) simp
  show ?thesis
    by (simp add: c signRequest_headers outbound_content outbound_signature)
qed

text \<open>
  Claim C7, amended. When the outbound signer has no configured secret key (the variable
  is unset or empty), construction does not fail: it writes a warning to the console and
  keeps the empty key. \<open>signRequest\<close> then still sets the three headers, and the
  signature is the HMAC of the canonical string under the empty key.
\<close>

theorem signer_without_key_signs:
  assumes "case cfg ''USER_SERVICE_KEY'' of None \<Rightarrow> True | Some k \<Rightarrow> k = []"
  shows "newServiceAuthClient cfg =
           (\<lparr>serviceId = js ''user-service'', serviceKey = []\<rparr>,
            [js ''Warning: USER_SERVICE_KEY is not set. Service authentication will fail.''])
       \<and> header (signRequest lib (fst (newServiceAuthClient cfg)) now config)
            (js ''x-service-id'') = Some (js ''user-service'')
       \<and> header (signRequest lib (fst (newServiceAuthClient cfg)) now config)
            (js ''x-request-timestamp'') = Some (toString now)
       \<and> header (signRequest lib (fst (newServiceAuthClient cfg)) now config)
            (js ''x-request-signature'')
           = Some (hexEncode (hmac_sha256 lib [] (outboundContent lib (toString now) config)))"
  using assms
  by (simp add: client_without_key [of cfg] signRequest_headers createSignature_def)

theorem signer_without_key_signs_witness:
  "newServiceAuthClient (Map.empty(''USER_SERVICE_KEY'' \<mapsto> [])) =
     (\<lparr>serviceId = js ''user-service'', serviceKey = []\<rparr>,
      [js ''Warning: USER_SERVICE_KEY is not set. Service authentication will fail.''])
   \<and> header (signRequest demo_lib
               (fst (newServiceAuthClient (Map.empty(''USER_SERVICE_KEY'' \<mapsto> []))))
               1700000000 outbound_request) (js ''x-request-timestamp'')
       = Some (toString 1700000000)
   \<and> header (signRequest demo_lib
               (fst (newServiceAuthClient (Map.empty(''USER_SERVICE_KEY'' \<mapsto> []))))
               1700000000 outbound_request) (js ''x-request-signature'')
       = Some (js ''d2'')"
proof -
  have c: "case (Map.empty(''USER_SERVICE_KEY'' \<mapsto> [])) ''USER_SERVICE_KEY'' of
             None \<Rightarrow> True | Some (k::jsstring) \<Rightarrow> k = []"
    by simp
  have s: "hexEncode (hmac_sha256 demo_lib []
             (outboundContent demo_lib (toString 1700000000) outbound_request)) = js ''d2''"
    using outbound_signature by (simp add: createSignature_def outbound_content)
  note r = signer_without_key_signs
         [of "Map.empty(''USER_SERVICE_KEY'' \<mapsto> [])" demo_lib 1700000000 outbound_request,
          OF c]
  show ?thesis using r unfolding s by blast
qed

end
